theory Spec2Isabelle
  imports Complex_Main "HOL-Library.Sublist"
begin

section \<open>pdf2yaml: a shallow embedding of \<open>src/pdf2yaml.py\<close>\<close>

text \<open>
  The program is a command-line driver around an external PDF-to-Markdown converter.
  Python \<open>str\<close> values are modelled as \<open>string\<close>; the only operations the program
  applies to them are concatenation, comparison with ASCII literals, splitting at the
  ASCII characters \<open>/\<close> and \<open>.\<close>, and \<open>lower()\<close> before a comparison with
  \<open>.pdf\<close>, all of which act alike on code points and on UTF-8 bytes.
\<close>

subsection \<open>Characters and numbers as text\<close>

definition nl :: string where
  "nl = [CHR 0x0A]"

definition cr :: string where
  "cr = [CHR 0x0D]"

definition sq :: string where
  "sq = [CHR 0x27]"

text \<open>
  \<open>str.lower()\<close> on the ASCII range. The program compares the lowered suffix with
  \<open>.pdf\<close> only, and no code point outside \<open>A-Z\<close> lowers to one of \<open>.\<close>, \<open>p\<close>,
  \<open>d\<close>, \<open>f\<close>, so the comparison is decided by the ASCII letters.
\<close>

definition lower_char :: "char \<Rightarrow> char" where
  "lower_char c =
     (let n = (of_char c :: nat) in if 65 \<le> n \<and> n \<le> 90 then char_of (n + 32) else c)"

definition lower :: "string \<Rightarrow> string" where
  "lower s = map lower_char s"

definition digit_char :: "nat \<Rightarrow> char" where
  "digit_char d = char_of (48 + d)"

fun str_nat :: "nat \<Rightarrow> string" where
  "str_nat n = (if n < 10 then [digit_char n] else str_nat (n div 10) @ [digit_char (n mod 10)])"

declare str_nat.simps [simp del]

definition str_int :: "int \<Rightarrow> string" where
  "str_int i = (if i < 0 then ''-'' @ str_nat (nat (- i)) else str_nat (nat i))"

subsection \<open>\<open>pathlib\<close>: pure POSIX paths\<close>

text \<open>
  \<open>Path(s)\<close> on a POSIX system, as \<open>pathlib\<close> of CPython 3.8 to 3.12 parses it: the
  root is \<open>//\<close> for exactly two leading slashes, \<open>/\<close> for any other number of them,
  and the remainder is split at \<open>/\<close>, dropping empty components and \<open>.\<close>.
\<close>

record path =
  root :: string
  parts :: "string list"

fun split_sep :: "string \<Rightarrow> string list" where
  "split_sep [] = [[]]"
| "split_sep (c # cs) =
     (if c = CHR ''/'' then [] # split_sep cs
      else (case split_sep cs of [] \<Rightarrow> [[c]] | h # t \<Rightarrow> (c # h) # t))"

definition splitroot :: "string \<Rightarrow> string \<times> string" where
  "splitroot p =
     (if take 1 p \<noteq> ''/'' then ('''', p)
      else if take 1 (drop 1 p) \<noteq> ''/'' \<or> take 1 (drop 2 p) = ''/'' then (''/'', drop 1 p)
      else (''//'', drop 2 p))"

definition Path :: "string \<Rightarrow> path" where
  "Path s =
     (if s = [] then \<lparr>root = [], parts = []\<rparr>
      else (case splitroot s of
              (r, rel) \<Rightarrow> \<lparr>root = r, parts = filter (\<lambda>x. x \<noteq> [] \<and> x \<noteq> ''.'') (split_sep rel)\<rparr>))"

fun join_sep :: "string list \<Rightarrow> string" where
  "join_sep [] = []"
| "join_sep [x] = x"
| "join_sep (x # y # ys) = x @ ''/'' @ join_sep (y # ys)"

text \<open>\<open>str(path)\<close>: the root followed by the joined components, or \<open>.\<close> when both are empty.\<close>

definition path_str :: "path \<Rightarrow> string" where
  "path_str p = (let s = root p @ join_sep (parts p) in if s = [] then ''.'' else s)"

text \<open>\<open>path.name\<close>: the final component, empty when there is none.\<close>

definition name :: "path \<Rightarrow> string" where
  "name p = (if parts p = [] then [] else last (parts p))"

text \<open>\<open>str.rfind(c)\<close>, with \<open>None\<close> for Python's \<open>-1\<close>.\<close>

fun rfind :: "char \<Rightarrow> string \<Rightarrow> nat option" where
  "rfind c [] = None"
| "rfind c (x # xs) =
     (case rfind c xs of
        Some i \<Rightarrow> Some (Suc i)
      | None \<Rightarrow> if x = c then Some 0 else None)"

text \<open>
  \<open>path.suffix\<close>: \<open>i = name.rfind('.')\<close>; the suffix is \<open>name[i:]\<close> if
  \<open>0 < i < len(name) - 1\<close> and empty otherwise.
\<close>

definition suffix_of :: "path \<Rightarrow> string" where
  "suffix_of p =
     (let nm = name p in
      case rfind CHR ''.'' nm of
        None \<Rightarrow> []
      | Some i \<Rightarrow> if 0 < i \<and> i + 1 < length nm then drop i nm else [])"

text \<open>
  \<open>path.with_suffix(suffix)\<close>; \<open>None\<close> stands for the \<open>ValueError\<close> raised on an
  invalid suffix or on a path with an empty name.
\<close>

definition with_suffix :: "path \<Rightarrow> string \<Rightarrow> path option" where
  "with_suffix p sfx =
     (if CHR ''/'' \<in> set sfx then None
      else if (sfx \<noteq> [] \<and> take 1 sfx \<noteq> ''.'') \<or> sfx = ''.'' then None
      else let nm = name p in
        if nm = [] then None
        else let old_suffix = suffix_of p;
                 nm' = (if old_suffix = [] then nm @ sfx
                        else take (length nm - length old_suffix) nm @ sfx)
             in Some (p\<lparr>parts := butlast (parts p) @ [nm']\<rparr>))"

subsection \<open>The outside world\<close>

text \<open>
  An exception is modelled by its message \<open>str(e)\<close>. The external calls either return
  or raise an instance of \<open>Exception\<close>; interrupts of the interpreter that are not
  instances of \<open>Exception\<close> (\<open>KeyboardInterrupt\<close>, \<open>SystemExit\<close>) are not part of the
  model.
\<close>

datatype exception = Exception (message: string)

text \<open>
  The progress object the converter hands to its callback. \<open>percentage\<close> is the exact
  value of the Python number; infinities and NaN are not modelled.
\<close>

record progress =
  phase_value :: string
  current_page :: int
  total_pages :: int
  percentage :: rat

text \<open>
  What a run does to the outside world, in order: text written to standard output, the
  construction of the converter with its three settings, the call of \<open>convert\<close>, the
  call of \<open>open(path, "w")\<close>, the \<open>write\<close> of the content to the opened file, and the
  interpreter's traceback for an exception that nothing catches.
\<close>

datatype event =
    Print string
  | NewConverter bool bool string
  | Convert string
  | OpenWrite string
  | FileWrite string string
  | Traceback

text \<open>
  The outcome of \<open>os.stat\<close> on a path: it succeeds, it raises \<open>OSError\<close> with an error
  number, or it raises \<open>ValueError\<close> (a path with an embedded null character).
  \<open>EOTHER\<close> stands for every error number that is not listed.
\<close>

datatype errno = ENOENT | ENOTDIR | EBADF | ELOOP | ENAMETOOLONG | EACCES | EOTHER

datatype stat_result = Stat_ok | Stat_OSError errno | Stat_ValueError

text \<open>
  The environment of a run: what \<open>os.stat\<close> does on each path, whether constructing the
  converter raises, which progress events \<open>convert\<close> reports before it returns the
  Markdown or raises, whether opening the output file raises, and whether writing and
  closing it raises.
\<close>

record world =
  stat :: "string \<Rightarrow> stat_result"
  new_converter :: "bool \<Rightarrow> bool \<Rightarrow> string \<Rightarrow> exception option"
  convert :: "bool \<Rightarrow> bool \<Rightarrow> string \<Rightarrow> string \<Rightarrow> progress list \<times> (exception + string)"
  open_w :: "string \<Rightarrow> exception option"
  write_close :: "string \<Rightarrow> string \<Rightarrow> exception option"

text \<open>
  \<open>Path.exists()\<close>, as \<open>pathlib\<close> of CPython 3.8 to 3.12 defines it: true when
  \<open>os.stat\<close> succeeds; false when it raises \<open>OSError\<close> with one of the ignored error
  numbers \<open>ENOENT\<close>, \<open>ENOTDIR\<close>, \<open>EBADF\<close>, \<open>ELOOP\<close>, or raises \<open>ValueError\<close>;
  any other \<open>OSError\<close> is raised again (\<open>Inl\<close>).
\<close>

fun ignore_error :: "errno \<Rightarrow> bool" where
  "ignore_error ENOENT = True"
| "ignore_error ENOTDIR = True"
| "ignore_error EBADF = True"
| "ignore_error ELOOP = True"
| "ignore_error _ = False"

definition exists :: "world \<Rightarrow> string \<Rightarrow> errno + bool" where
  "exists w p =
     (case stat w p of
        Stat_ok \<Rightarrow> Inr True
      | Stat_OSError e \<Rightarrow> if ignore_error e then Inr False else Inl e
      | Stat_ValueError \<Rightarrow> Inr False)"

text \<open>The parsed command line (\<open>args\<close> of \<open>argparse\<close>).\<close>

record args =
  pdf_file :: string
  output_arg :: "string option"
  markdown_only :: bool
  keep_headers :: bool
  include_empty_tables :: bool

subsection \<open>\<open>progress_callback\<close>\<close>

text \<open>
  The format \<open>:.1f\<close>: the value rounded to one decimal, ties to the even digit, with the
  sign of a negative value kept.
\<close>

definition round_half_even :: "rat \<Rightarrow> int" where
  "round_half_even x =
     (let f = \<lfloor>x\<rfloor>; r = x - of_int f in
      if r < 1 / 2 then f else if 1 / 2 < r then f + 1 else if even f then f else f + 1)"

definition format_1f :: "rat \<Rightarrow> string" where
  "format_1f x =
     (let n = nat (round_half_even (\<bar>x\<bar> * 10)) in
      (if x < 0 then ''-'' else []) @ str_nat (n div 10) @ ''.'' @ str_nat (n mod 10))"

definition progress_line :: "progress \<Rightarrow> string" where
  "progress_line p =
     cr @ ''Phase: '' @ phase_value p @ '', Page '' @ str_int (current_page p) @ ''/''
        @ str_int (total_pages p) @ '', Progress: '' @ format_1f (percentage p) @ ''%''"

definition progress_callback :: "progress \<Rightarrow> event list" where
  "progress_callback p =
     Print (progress_line p) # (if percentage p \<ge> 100 then [Print nl] else [])"

subsection \<open>\<open>pdf_to_markdown\<close>\<close>

definition pdf_to_markdown :: "world \<Rightarrow> path \<Rightarrow> bool \<Rightarrow> bool \<Rightarrow> event list \<times> (exception + string)" where
  "pdf_to_markdown w pdf_path remove_headers skip_empty_tables =
     (case new_converter w remove_headers skip_empty_tables ''### Table'' of
        Some e \<Rightarrow> ([NewConverter remove_headers skip_empty_tables ''### Table''], Inl e)
      | None \<Rightarrow>
          (case convert w remove_headers skip_empty_tables ''### Table'' (path_str pdf_path) of
             (ps, r) \<Rightarrow>
               ([NewConverter remove_headers skip_empty_tables ''### Table'',
                 Print (''Converting '' @ path_str pdf_path @ '' to Markdown...'' @ nl),
                 Convert (path_str pdf_path)]
                @ concat (map progress_callback ps), r)))"

subsection \<open>\<open>markdown_to_yaml_template\<close>\<close>

text \<open>
  The lines of the template literal before its single replacement field \<open>{}\<close>; each is
  followed by a newline in the literal, and so is the field.
\<close>

definition scaffold_lines :: "string list" where
  \<open>scaffold_lines =
    [
     ''# YAML PRD - Generated from PDF'',
     ''# Review and edit this template to match your needs'',
     '''',
     ''prd:'',
     ''  title: "TODO: Extract title from document"'',
     ''  purpose: "TODO: Extract purpose/objective from document"'',
     ''  '',
     ''  features:'',
     ''    # TODO: Extract user stories/features from the markdown content'',
     ''    - id: F1'',
     ''      user_story: "As a [user], I can [action] so that [benefit]"'',
     ''    - id: F2'',
     ''      user_story: "..."'',
     ''  '',
     ''  metrics:'',
     ''    # TODO: Extract success metrics/KPIs'',
     ''    - metric: Metric_Name'',
     ''      target: "Target value"'',
     ''  '',
     ''  constraints:'',
     ''    # TODO: Extract constraints, limitations, and requirements'',
     ''    - "Constraint 1"'',
     ''    - "Constraint 2"'',
     '''',
     ''# Optional sections (uncomment as needed):'',
     ''# technical_specs:'',
     ''#   api:'',
     ''#     - endpoint: /api/v1/resource'',
     ''#       method: POST'',
     ''#   database:'',
     ''#     table_name:'',
     ''#       column: type'',
     ''# '',
     ''# dependencies:'',
     ''#   - name: service_name'',
     ''#     version: ">=1.0"'',
     ''# '',
     ''# testing:'',
     ''#   coverage: 80'',
     ''#   scenarios:'',
     ''#     - name: scenario_name'',
     '''',
     ''# === Original Markdown Content ==='',
     ''# Use this content to fill in the YAML structure above'',
     ''---''
    ]\<close>

definition scaffold :: string where
  "scaffold = concat (map (\<lambda>l. l @ nl) scaffold_lines)"

definition markdown_to_yaml_template :: "string \<Rightarrow> string" where
  "markdown_to_yaml_template markdown_content = scaffold @ markdown_content @ nl"

text \<open>The scaffold before its last line, the marker \<open>---\<close>.\<close>

definition scaffold_head :: string where
  "scaffold_head = concat (map (\<lambda>l. l @ nl) (butlast scaffold_lines))"

subsection \<open>\<open>main\<close>\<close>

text \<open>
  The output path: the value of \<open>-o\<close> if it is given and not empty, otherwise the input
  path with the suffix of the mode. \<open>None\<close> is the \<open>ValueError\<close> of \<open>with_suffix\<close>,
  which \<open>main\<close> does not catch.
\<close>

definition determine_output :: "args \<Rightarrow> path \<Rightarrow> path option" where
  "determine_output a pdf_path =
     (case output_arg a of
        Some out \<Rightarrow>
          if out \<noteq> [] then Some (Path out)
          else with_suffix pdf_path (if markdown_only a then ''.md'' else ''.yaml'')
      | None \<Rightarrow> with_suffix pdf_path (if markdown_only a then ''.md'' else ''.yaml''))"

text \<open>The messages of the "Generate output" step.\<close>

definition saved_messages :: "args \<Rightarrow> path \<Rightarrow> event list" where
  "saved_messages a output_path =
     (if markdown_only a then
        [Print (nl @ ''Markdown saved to: '' @ path_str output_path @ nl)]
      else
        [Print (nl @ ''YAML PRD template saved to: '' @ path_str output_path @ nl),
         Print (nl @ ''Next steps:'' @ nl),
         Print (''1. Open the YAML file and review the generated template'' @ nl),
         Print (''2. Extract relevant information from the markdown section'' @ nl),
         Print (''3. Fill in the TODO sections with actual content'' @ nl),
         Print (''4. Remove the markdown section once extraction is complete'' @ nl)])"

text \<open>
  The body of the \<open>try\<close> statement: the events it causes, and the exception that leaves
  it or \<open>()\<close> when it runs to its end.
\<close>

definition try_body :: "world \<Rightarrow> args \<Rightarrow> path \<Rightarrow> path \<Rightarrow> event list \<times> (exception + unit)" where
  "try_body w a pdf_path output_path =
     (case pdf_to_markdown w pdf_path (\<not> keep_headers a) (\<not> include_empty_tables a) of
        (ev, Inl e) \<Rightarrow> (ev, Inl e)
      | (ev, Inr markdown_content) \<Rightarrow>
          (let output_content =
                 (if markdown_only a then markdown_content
                  else markdown_to_yaml_template markdown_content);
               ev' = ev @ saved_messages a output_path @ [OpenWrite (path_str output_path)]
           in case open_w w (path_str output_path) of
                Some e \<Rightarrow> (ev', Inl e)
              | None \<Rightarrow>
                  (case write_close w (path_str output_path) output_content of
                     Some e \<Rightarrow> (ev' @ [FileWrite (path_str output_path) output_content], Inl e)
                   | None \<Rightarrow> (ev' @ [FileWrite (path_str output_path) output_content], Inr ()))))"

text \<open>
  \<open>main\<close>: the events of the run and the exit status of the process. The calls
  \<open>pdf_path.exists()\<close> and \<open>pdf_path.with_suffix(suffix)\<close> stand before the \<open>try\<close>
  statement, so an exception they raise ends the run with a traceback and status 1.
\<close>

definition main :: "world \<Rightarrow> args \<Rightarrow> event list \<times> nat" where
  "main w a =
     (let pdf_path = Path (pdf_file a) in
      case exists w (path_str pdf_path) of
        Inl err \<Rightarrow> ([Traceback], 1)
      | Inr found \<Rightarrow>
          if \<not> found then
            ([Print (''Error: File '' @ sq @ path_str pdf_path @ sq @ '' not found'' @ nl)], 1)
          else if lower (suffix_of pdf_path) \<noteq> ''.pdf'' then
            ([Print (''Error: File '' @ sq @ path_str pdf_path @ sq @ '' is not a PDF'' @ nl)], 1)
          else
            (case determine_output a pdf_path of
               None \<Rightarrow> ([Traceback], 1)
             | Some output_path \<Rightarrow>
                 (case try_body w a pdf_path output_path of
                    (ev, Inl e) \<Rightarrow> (ev @ [Print (nl @ ''Error converting PDF: '' @ message e @ nl)], 1)
                  | (ev, Inr _) \<Rightarrow> (ev, 0))))"

subsection \<open>Reading a run\<close>

text \<open>
  Projections of the events of a run: the paths given to \<open>open\<close>, the pairs of path and
  content given to \<open>write\<close>, the settings the converter was constructed with, and the
  paths given to \<open>convert\<close>.
\<close>

fun opened_of :: "event \<Rightarrow> string list" where
  "opened_of (OpenWrite p) = [p]"
| "opened_of _ = []"

definition opened :: "event list \<Rightarrow> string list" where
  "opened evs = concat (map opened_of evs)"

fun written_of :: "event \<Rightarrow> (string \<times> string) list" where
  "written_of (FileWrite p c) = [(p, c)]"
| "written_of _ = []"

definition written :: "event list \<Rightarrow> (string \<times> string) list" where
  "written evs = concat (map written_of evs)"

fun constructed_of :: "event \<Rightarrow> (bool \<times> bool \<times> string) list" where
  "constructed_of (NewConverter rh se th) = [(rh, se, th)]"
| "constructed_of _ = []"

definition constructed :: "event list \<Rightarrow> (bool \<times> bool \<times> string) list" where
  "constructed evs = concat (map constructed_of evs)"

fun converted_of :: "event \<Rightarrow> string list" where
  "converted_of (Convert p) = [p]"
| "converted_of _ = []"

definition converted :: "event list \<Rightarrow> string list" where
  "converted evs = concat (map converted_of evs)"

text \<open>
  The events of \<open>pdf_to_markdown\<close> when the converter is constructed and \<open>convert\<close>
  reports the progress events \<open>ps\<close>.
\<close>

definition conversion_events :: "args \<Rightarrow> progress list \<Rightarrow> event list" where
  "conversion_events a ps =
     [NewConverter (\<not> keep_headers a) (\<not> include_empty_tables a) ''### Table'',
      Print (''Converting '' @ path_str (Path (pdf_file a)) @ '' to Markdown...'' @ nl),
      Convert (path_str (Path (pdf_file a)))]
     @ concat (map progress_callback ps)"

subsection \<open>Example runs\<close>

text \<open>
  A world in which \<open>spec.pdf\<close> exists and is converted to \<open># Hi\<close> after two progress
  events, and the command lines \<open>spec.pdf\<close> and \<open>spec.pdf -m\<close>.
\<close>

definition p_half :: progress where
  "p_half = \<lparr>phase_value = ''analysis'', current_page = 1, total_pages = 2, percentage = 50\<rparr>"

definition p_done :: progress where
  "p_done = \<lparr>phase_value = ''conversion'', current_page = 2, total_pages = 2, percentage = 100\<rparr>"

definition w_ok :: world where
  "w_ok = \<lparr>stat = (\<lambda>s. if s = ''spec.pdf'' then Stat_ok else Stat_OSError ENOENT),
           new_converter = (\<lambda>rh se th. None),
           convert = (\<lambda>rh se th p. ([p_half, p_done], Inr ''# Hi'')),
           open_w = (\<lambda>p. None),
           write_close = (\<lambda>p c. None)\<rparr>"

definition a_yaml :: args where
  "a_yaml = \<lparr>pdf_file = ''spec.pdf'', output_arg = None, markdown_only = False,
             keep_headers = False, include_empty_tables = False\<rparr>"

definition a_md :: args where
  "a_md = \<lparr>pdf_file = ''spec.pdf'', output_arg = None, markdown_only = True,
           keep_headers = False, include_empty_tables = False\<rparr>"



definition a_keep :: args where
  "a_keep = \<lparr>pdf_file = ''spec.pdf'', output_arg = None, markdown_only = False,
             keep_headers = True, include_empty_tables = True\<rparr>"

text \<open>
  A progress event beyond 100 percent, a world whose converter reports 50, 100, 125 and
  100 percent, a world whose converter raises after reporting 50 percent, and worlds in
  which the output file cannot be opened or cannot be written.
\<close>

definition p_over :: progress where
  "p_over = \<lparr>phase_value = ''conversion'', current_page = 5, total_pages = 4, percentage = 125\<rparr>"

definition w_over :: world where
  "w_over = w_ok\<lparr>convert := (\<lambda>rh se th p. ([p_half, p_done, p_over, p_done], Inr ''# Hi''))\<rparr>"

definition w_broken :: world where
  "w_broken = w_ok\<lparr>convert := (\<lambda>rh se th p. ([p_half], Inl (Exception ''bad xref'')))\<rparr>"

definition w_denied :: world where
  "w_denied = w_ok\<lparr>open_w := (\<lambda>p. Some (Exception ''Permission denied''))\<rparr>"

definition w_full :: world where
  "w_full = w_ok\<lparr>write_close := (\<lambda>p c. Some (Exception ''No space left on device''))\<rparr>"




section \<open>Properties\<close>

subsection \<open>Paths\<close>

lemma lower_length: "length (lower s) = length s"
  by (simp add: lower_def)

lemma pdf_suffix_nonempty: "lower s = ''.pdf'' \<Longrightarrow> s \<noteq> []"
  by (auto simp: lower_def)

lemma join_sep_snoc:
  "join_sep (ys @ [x]) = (if ys = [] then [] else join_sep ys @ ''/'') @ x"
  by (induction ys rule: join_sep.induct) simp_all

lemma suffix_of_nonempty:
  assumes "suffix_of p \<noteq> []"
  shows "parts p \<noteq> [] \<and> name p = last (parts p) \<and> name p \<noteq> []
         \<and> length (suffix_of p) < length (name p)
         \<and> name p = take (length (name p) - length (suffix_of p)) (name p) @ suffix_of p"
proof -
  from assms obtain i where i: "rfind CHR ''.'' (name p) = Some i" "0 < i" "i + 1 < length (name p)"
    and s: "suffix_of p = drop i (name p)"
    by (auto simp: suffix_of_def Let_def split: option.splits if_splits)
  from i have ne: "name p \<noteq> []" by auto
  then have pn: "parts p \<noteq> []" "name p = last (parts p)"
    by (auto simp: name_def split: if_splits)
  from i s have "length (name p) - length (suffix_of p) = i" by simp
  then have "name p = take (length (name p) - length (suffix_of p)) (name p) @ suffix_of p"
    using s by simp
  moreover from i s have "length (suffix_of p) < length (name p)" by simp
  ultimately show ?thesis using ne pn by blast
qed

lemma path_str_snoc:
  assumes "parts q = ys @ [x]" and "x \<noteq> []"
  shows "path_str q = root q @ (if ys = [] then [] else join_sep ys @ ''/'') @ x"
  using assms by (simp add: path_str_def join_sep_snoc Let_def)

lemma path_str_ends_with_suffix:
  assumes sfx: "suffix_of p \<noteq> []"
  shows "suffix (suffix_of p) (path_str p)"
proof -
  from suffix_of_nonempty [OF sfx]
  have pn: "parts p \<noteq> []" and nm: "name p = last (parts p)" and ne: "name p \<noteq> []"
    and split: "name p = take (length (name p) - length (suffix_of p)) (name p) @ suffix_of p"
    by blast+
  have "parts p = butlast (parts p) @ [name p]"
    using pn nm by simp
  from path_str_snoc [OF this ne] have "suffix (name p) (path_str p)"
    by (simp add: suffix_def)
  moreover have "suffix (suffix_of p) (name p)"
    using split by (metis suffixI)
  ultimately show ?thesis by (rule suffix_order.trans [rotated])
qed

lemma with_suffix_replaces:
  assumes sfx: "suffix_of p \<noteq> []"
    and ok: "CHR ''/'' \<notin> set ext" "take 1 ext = ''.''" "ext \<noteq> ''.''"
  shows "map_option path_str (with_suffix p ext)
         = Some (take (length (path_str p) - length (suffix_of p)) (path_str p) @ ext)"
proof -
  from suffix_of_nonempty [OF sfx]
  have pn: "parts p \<noteq> []" and nm: "name p = last (parts p)" and ne: "name p \<noteq> []"
    and len: "length (suffix_of p) < length (name p)"
    and split: "name p = take (length (name p) - length (suffix_of p)) (name p) @ suffix_of p"
    by blast+
  define stem where "stem = take (length (name p) - length (suffix_of p)) (name p)"
  define pre where "pre = root p @ (if butlast (parts p) = [] then [] else join_sep (butlast (parts p)) @ ''/'')"
  have stem_ne: "stem \<noteq> []" using len ne by (simp add: stem_def)
  have "parts p = butlast (parts p) @ [name p]"
    using pn nm by simp
  from path_str_snoc [OF this ne] have "path_str p = pre @ name p"
    by (simp add: pre_def)
  then have ps: "path_str p = pre @ stem @ suffix_of p"
    using split by (simp add: stem_def)
  have ws: "with_suffix p ext = Some (p\<lparr>parts := butlast (parts p) @ [stem @ ext]\<rparr>)"
    using ok sfx ne by (auto simp: with_suffix_def Let_def stem_def)
  have "path_str (p\<lparr>parts := butlast (parts p) @ [stem @ ext]\<rparr>) = pre @ stem @ ext"
    using stem_ne by (simp add: path_str_snoc [where ys = "butlast (parts p)" and x = "stem @ ext"] pre_def)
  moreover have "take (length (path_str p) - length (suffix_of p)) (path_str p) = pre @ stem"
    by (simp add: ps)
  ultimately show ?thesis using ws by simp
qed







subsection \<open>Projections of events\<close>

lemma opened_simps [simp]:
  "opened [] = []" "opened (e # es) = opened_of e @ opened es"
  "opened (xs @ ys) = opened xs @ opened ys"
  by (simp_all add: opened_def)

lemma written_simps [simp]:
  "written [] = []" "written (e # es) = written_of e @ written es"
  "written (xs @ ys) = written xs @ written ys"
  by (simp_all add: written_def)

lemma constructed_simps [simp]:
  "constructed [] = []" "constructed (e # es) = constructed_of e @ constructed es"
  "constructed (xs @ ys) = constructed xs @ constructed ys"
  by (simp_all add: constructed_def)

lemma converted_simps [simp]:
  "converted [] = []" "converted (e # es) = converted_of e @ converted es"
  "converted (xs @ ys) = converted xs @ converted ys"
  by (simp_all add: converted_def)

lemma callbacks_quiet [simp]:
  "opened (concat (map progress_callback ps)) = []"
  "written (concat (map progress_callback ps)) = []"
  "constructed (concat (map progress_callback ps)) = []"
  "converted (concat (map progress_callback ps)) = []"
  by (induction ps) (simp_all add: progress_callback_def)

lemma saved_messages_quiet [simp]:
  "opened (saved_messages a out) = []"
  "written (saved_messages a out) = []"
  "constructed (saved_messages a out) = []"
  "converted (saved_messages a out) = []"
  by (simp_all add: saved_messages_def)

lemma conversion_events_quiet [simp]:
  "opened (conversion_events a ps) = []"
  "written (conversion_events a ps) = []"
  by (simp_all add: conversion_events_def)

subsection \<open>The shape of a run\<close>

lemma determine_output_derived:
  assumes "lower (suffix_of p) = ''.pdf''" and "output_arg a = None \<or> output_arg a = Some []"
  shows "map_option path_str (determine_output a p) =
           Some (take (length (path_str p) - length (suffix_of p)) (path_str p)
                 @ (if markdown_only a then ''.md'' else ''.yaml''))"
proof -
  have ne: "suffix_of p \<noteq> []" using assms(1) by (rule pdf_suffix_nonempty)
  have "determine_output a p = with_suffix p (if markdown_only a then ''.md'' else ''.yaml'')"
    using assms(2) by (auto simp: determine_output_def)
  then show ?thesis
    using with_suffix_replaces [OF ne, of "''.md''"] with_suffix_replaces [OF ne, of "''.yaml''"]
    by simp
qed

lemma determine_output_defined:
  assumes "lower (suffix_of p) = ''.pdf''"
  shows "\<exists>out. determine_output a p = Some out"
proof (cases "output_arg a = None \<or> output_arg a = Some []")
  case True
  from determine_output_derived [OF assms True] show ?thesis by auto
next
  case False
  then show ?thesis by (auto simp: determine_output_def)
qed

lemma main_validated:
  assumes "exists w (path_str (Path (pdf_file a))) = Inr True"
    and "lower (suffix_of (Path (pdf_file a))) = ''.pdf''"
    and "determine_output a (Path (pdf_file a)) = Some out"
  shows "main w a =
          (case try_body w a (Path (pdf_file a)) out of
             (ev, Inl e) \<Rightarrow> (ev @ [Print (nl @ ''Error converting PDF: '' @ message e @ nl)], 1)
           | (ev, Inr u) \<Rightarrow> (ev, 0))"
  using assms by (simp add: main_def Let_def split: prod.splits sum.splits)


lemma try_body_convert_fails:
  assumes "new_converter w (\<not> keep_headers a) (\<not> include_empty_tables a) ''### Table'' = None"
    and "convert w (\<not> keep_headers a) (\<not> include_empty_tables a) ''### Table''
           (path_str (Path (pdf_file a))) = (ps, Inl e)"
  shows "try_body w a (Path (pdf_file a)) out = (conversion_events a ps, Inl e)"
  using assms by (simp add: try_body_def pdf_to_markdown_def conversion_events_def)

lemma try_body_converted:
  assumes "new_converter w (\<not> keep_headers a) (\<not> include_empty_tables a) ''### Table'' = None"
    and "convert w (\<not> keep_headers a) (\<not> include_empty_tables a) ''### Table''
           (path_str (Path (pdf_file a))) = (ps, Inr md)"
  shows "try_body w a (Path (pdf_file a)) out =
           (let content = (if markdown_only a then md else markdown_to_yaml_template md);
                ev = conversion_events a ps @ saved_messages a out @ [OpenWrite (path_str out)]
            in case open_w w (path_str out) of
                 Some e \<Rightarrow> (ev, Inl e)
               | None \<Rightarrow>
                   (ev @ [FileWrite (path_str out) content],
                    case write_close w (path_str out) content of
                      Some e \<Rightarrow> Inl e | None \<Rightarrow> Inr ()))"
  using assms
  by (simp add: try_body_def pdf_to_markdown_def conversion_events_def Let_def split: option.splits)

lemma try_body_opened: "set (opened (fst (try_body w a p out))) \<subseteq> {path_str out}"
  by (simp add: try_body_def pdf_to_markdown_def Let_def split: option.splits prod.splits sum.splits)

lemma main_exit_zero:
  assumes "snd (main w a) = 0"
  shows "exists w (path_str (Path (pdf_file a))) = Inr True \<and> lower (suffix_of (Path (pdf_file a))) = ''.pdf''
         \<and> (\<exists>out. determine_output a (Path (pdf_file a)) = Some out
              \<and> try_body w a (Path (pdf_file a)) out = (fst (main w a), Inr ()))"
  using assms
  by (auto simp: main_def Let_def split: if_splits option.splits prod.splits sum.splits)

lemma try_body_completes:
  assumes "try_body w a (Path (pdf_file a)) out = (ev, Inr u)"
  shows "\<exists>ps md. new_converter w (\<not> keep_headers a) (\<not> include_empty_tables a) ''### Table'' = None
           \<and> convert w (\<not> keep_headers a) (\<not> include_empty_tables a) ''### Table''
                (path_str (Path (pdf_file a))) = (ps, Inr md)
           \<and> open_w w (path_str out) = None
           \<and> write_close w (path_str out) (if markdown_only a then md else markdown_to_yaml_template md) = None
           \<and> ev = conversion_events a ps @ saved_messages a out
                  @ [OpenWrite (path_str out),
                     FileWrite (path_str out) (if markdown_only a then md else markdown_to_yaml_template md)]"
  using assms
  by (auto simp: try_body_def pdf_to_markdown_def conversion_events_def Let_def
           split: option.splits prod.splits sum.splits if_splits)

lemma main_convert_raised:
  assumes "exists w (path_str (Path (pdf_file a))) = Inr True"
    and "lower (suffix_of (Path (pdf_file a))) = ''.pdf''"
    and "new_converter w (\<not> keep_headers a) (\<not> include_empty_tables a) ''### Table'' = None"
    and "convert w (\<not> keep_headers a) (\<not> include_empty_tables a) ''### Table''
           (path_str (Path (pdf_file a))) = (ps, Inl e)"
  shows "main w a = (conversion_events a ps @ [Print (nl @ ''Error converting PDF: '' @ message e @ nl)], 1)"
proof -
  from determine_output_defined [OF assms(2)]
  obtain out where out: "determine_output a (Path (pdf_file a)) = Some out" by blast
  show ?thesis
    unfolding main_validated [OF assms(1,2) out] try_body_convert_fails [OF assms(3,4)]
    by simp
qed


lemma main_converted:
  assumes "exists w (path_str (Path (pdf_file a))) = Inr True"
    and "lower (suffix_of (Path (pdf_file a))) = ''.pdf''"
    and "determine_output a (Path (pdf_file a)) = Some out"
    and "new_converter w (\<not> keep_headers a) (\<not> include_empty_tables a) ''### Table'' = None"
    and "convert w (\<not> keep_headers a) (\<not> include_empty_tables a) ''### Table''
           (path_str (Path (pdf_file a))) = (ps, Inr md)"
  shows "main w a =
           (let content = (if markdown_only a then md else markdown_to_yaml_template md);
                ev = conversion_events a ps @ saved_messages a out @ [OpenWrite (path_str out)]
            in case open_w w (path_str out) of
                 Some e \<Rightarrow> (ev @ [Print (nl @ ''Error converting PDF: '' @ message e @ nl)], 1)
               | None \<Rightarrow>
                   (case write_close w (path_str out) content of
                      Some e \<Rightarrow> (ev @ [FileWrite (path_str out) content,
                                        Print (nl @ ''Error converting PDF: '' @ message e @ nl)], 1)
                    | None \<Rightarrow> (ev @ [FileWrite (path_str out) content], 0)))"
  unfolding main_validated [OF assms(1,2,3)] try_body_converted [OF assms(4,5)]
  by (simp add: Let_def split: option.splits)

lemma main_begins:
  assumes "exists w (path_str (Path (pdf_file a))) = Inr True"
    and "lower (suffix_of (Path (pdf_file a))) = ''.pdf''"
    and "new_converter w (\<not> keep_headers a) (\<not> include_empty_tables a) ''### Table'' = None"
    and "convert w (\<not> keep_headers a) (\<not> include_empty_tables a) ''### Table''
           (path_str (Path (pdf_file a))) = (ps, r)"
  shows "\<exists>rest. fst (main w a) = conversion_events a ps @ rest
           \<and> count_list rest (Print nl) = 0"
proof (cases r)
  case (Inl e)
  from main_convert_raised [OF assms(1,2,3) assms(4) [unfolded Inl]]
  show ?thesis by (simp add: nl_def)
next
  case (Inr md)
  from determine_output_defined [OF assms(2)]
  obtain out where out: "determine_output a (Path (pdf_file a)) = Some out" by blast
  from main_converted [OF assms(1,2) out assms(3) assms(4) [unfolded Inr]]
  show ?thesis
    by (simp add: Let_def saved_messages_def nl_def split: option.splits)
qed

subsection \<open>The template and the progress handler\<close>

lemma scaffold_split: "scaffold = scaffold_head @ ''---'' @ nl"
proof -
  have "scaffold_lines = butlast scaffold_lines @ [''---'']"
    by (simp add: scaffold_lines_def)
  then have "scaffold = concat (map (\<lambda>l. l @ nl) (butlast scaffold_lines @ [''---'']))"
    by (simp add: scaffold_def)
  then show ?thesis
    by (simp add: scaffold_head_def)
qed

lemma sublist_of_line:
  assumes "l \<in> set ls" and "sublist k l"
  shows "sublist k (concat (map (\<lambda>l. l @ nl) ls))"
proof -
  from assms(1) obtain xs ys where "ls = xs @ l # ys"
    by (auto simp: in_set_conv_decomp)
  then have "concat (map (\<lambda>l. l @ nl) ls)
             = concat (map (\<lambda>l. l @ nl) xs) @ l @ (nl @ concat (map (\<lambda>l. l @ nl) ys))"
    by simp
  moreover from assms(2) obtain a b where "l = a @ k @ b"
    by (auto simp: sublist_def)
  ultimately have "concat (map (\<lambda>l. l @ nl) ls)
             = (concat (map (\<lambda>l. l @ nl) xs) @ a) @ k @ (b @ nl @ concat (map (\<lambda>l. l @ nl) ys))"
    by simp
  then show ?thesis
    unfolding sublist_def by blast
qed

lemma scaffold_keys:
  "sublist ''title:'' scaffold_head" "sublist ''purpose:'' scaffold_head"
  "sublist ''features:'' scaffold_head" "sublist ''metrics:'' scaffold_head"
  "sublist ''constraints:'' scaffold_head"
proof -
  have "''  title: \"TODO: Extract title from document\"'' \<in> set (butlast scaffold_lines)"
    by (simp add: scaffold_lines_def)
  moreover have "sublist ''title:'' ''  title: \"TODO: Extract title from document\"''"
    by (simp add: sublist_Cons_right)
  ultimately show "sublist ''title:'' scaffold_head"
    unfolding scaffold_head_def by (rule sublist_of_line)
  have "''  purpose: \"TODO: Extract purpose/objective from document\"'' \<in> set (butlast scaffold_lines)"
    by (simp add: scaffold_lines_def)
  moreover have "sublist ''purpose:'' ''  purpose: \"TODO: Extract purpose/objective from document\"''"
    by (simp add: sublist_Cons_right)
  ultimately show "sublist ''purpose:'' scaffold_head"
    unfolding scaffold_head_def by (rule sublist_of_line)
  have "''  features:'' \<in> set (butlast scaffold_lines)"
    by (simp add: scaffold_lines_def)
  moreover have "sublist ''features:'' ''  features:''"
    by (simp add: sublist_Cons_right)
  ultimately show "sublist ''features:'' scaffold_head"
    unfolding scaffold_head_def by (rule sublist_of_line)
  have "''  metrics:'' \<in> set (butlast scaffold_lines)"
    by (simp add: scaffold_lines_def)
  moreover have "sublist ''metrics:'' ''  metrics:''"
    by (simp add: sublist_Cons_right)
  ultimately show "sublist ''metrics:'' scaffold_head"
    unfolding scaffold_head_def by (rule sublist_of_line)
  have "''  constraints:'' \<in> set (butlast scaffold_lines)"
    by (simp add: scaffold_lines_def)
  moreover have "sublist ''constraints:'' ''  constraints:''"
    by (simp add: sublist_Cons_right)
  ultimately show "sublist ''constraints:'' scaffold_head"
    unfolding scaffold_head_def by (rule sublist_of_line)
qed

lemma count_callbacks:
  "count_list (concat (map progress_callback ps)) (Print nl)
     = length (filter (\<lambda>p. 100 \<le> percentage p) ps)"
  by (induction ps) (simp_all add: progress_callback_def progress_line_def cr_def nl_def)

subsection \<open>The example runs\<close>

lemma spec_pdf_path [simp]: "Path ''spec.pdf'' = \<lparr>root = [], parts = [''spec.pdf'']\<rparr>"
  by (simp add: Path_def splitroot_def)

lemma spec_pdf_str [simp]: "path_str \<lparr>root = [], parts = [''spec.pdf'']\<rparr> = ''spec.pdf''"
  by (simp add: path_str_def)

lemma spec_pdf_suffix [simp]: "suffix_of \<lparr>root = [], parts = [''spec.pdf'']\<rparr> = ''.pdf''"
  by (simp add: suffix_of_def name_def)

lemma lower_pdf [simp]: "lower ''.pdf'' = ''.pdf''"
  by (simp add: lower_def lower_char_def)

lemma notes_txt_path [simp]: "Path ''notes.txt'' = \<lparr>root = [], parts = [''notes.txt'']\<rparr>"
  by (simp add: Path_def splitroot_def)

lemma notes_txt_str [simp]: "path_str \<lparr>root = [], parts = [''notes.txt'']\<rparr> = ''notes.txt''"
  by (simp add: path_str_def)

lemma notes_txt_suffix [simp]: "suffix_of \<lparr>root = [], parts = [''notes.txt'']\<rparr> = ''.txt''"
  by (simp add: suffix_of_def name_def)

lemma lower_txt [simp]: "lower ''.txt'' = ''.txt''"
  by (simp add: lower_def lower_char_def)

lemma spec_pdf_output [simp]:
  "output_arg a = None \<Longrightarrow>
   determine_output a \<lparr>root = [], parts = [''spec.pdf'']\<rparr>
     = Some \<lparr>root = [], parts = [if markdown_only a then ''spec.md'' else ''spec.yaml'']\<rparr>"
  by (simp add: determine_output_def with_suffix_def name_def)

lemma spec_out_str [simp]:
  "path_str \<lparr>root = [], parts = [''spec.md'']\<rparr> = ''spec.md''"
  "path_str \<lparr>root = [], parts = [''spec.yaml'']\<rparr> = ''spec.yaml''"
  by (simp_all add: path_str_def)

lemma main_ok_md:
  "main w_ok a_md = (conversion_events a_md [p_half, p_done] @ saved_messages a_md \<lparr>root = [], parts = [''spec.md'']\<rparr>
       @ [OpenWrite ''spec.md'', FileWrite ''spec.md'' ''# Hi''], 0)"
  by (simp add: main_def try_body_def pdf_to_markdown_def conversion_events_def exists_def w_ok_def a_md_def)

lemma main_ok_yaml:
  "main w_ok a_yaml = (conversion_events a_yaml [p_half, p_done] @ saved_messages a_yaml \<lparr>root = [], parts = [''spec.yaml'']\<rparr>
       @ [OpenWrite ''spec.yaml'', FileWrite ''spec.yaml'' (markdown_to_yaml_template ''# Hi'')], 0)"
  by (simp add: main_def try_body_def pdf_to_markdown_def conversion_events_def exists_def w_ok_def a_yaml_def)

lemma progress_line_half: "progress_line p_half = cr @ ''Phase: analysis, Page 1/2, Progress: 50.0%''"
  by code_simp

lemma progress_line_done: "progress_line p_done = cr @ ''Phase: conversion, Page 2/2, Progress: 100.0%''"
  by code_simp

subsection \<open>Output path\<close>

text \<open>
  C1: when the input path exists, its suffix is \<open>.pdf\<close> in any letter case and no
  \<open>-o/--output\<close> is given, the output path is the input path with its suffix (the
  end of the path string) replaced by \<open>.md\<close> in markdown-only mode and by \<open>.yaml\<close>
  otherwise, and the run opens no other file.
\<close>

theorem output_path_derived:
  assumes "exists w (path_str (Path (pdf_file a))) = Inr True"
    and "lower (suffix_of (Path (pdf_file a))) = ''.pdf''"
    and "output_arg a = None"
  shows "let p = Path (pdf_file a);
             expected = take (length (path_str p) - length (suffix_of p)) (path_str p)
                        @ (if markdown_only a then ''.md'' else ''.yaml'')
         in suffix (suffix_of p) (path_str p)
          \<and> map_option path_str (determine_output a p) = Some expected
          \<and> set (opened (fst (main w a))) \<subseteq> {expected}"
proof -
  define p where "p = Path (pdf_file a)"
  define expected where "expected = take (length (path_str p) - length (suffix_of p)) (path_str p)
                        @ (if markdown_only a then ''.md'' else ''.yaml'')"
  have ne: "suffix_of p \<noteq> []"
    using assms(2) unfolding p_def by (rule pdf_suffix_nonempty)
  have 1: "suffix (suffix_of p) (path_str p)"
    using ne by (rule path_str_ends_with_suffix)
  have 2: "map_option path_str (determine_output a p) = Some expected"
    unfolding expected_def p_def
    using assms(2,3) by (intro determine_output_derived) simp_all
  then obtain out where out: "determine_output a p = Some out" "path_str out = expected"
    by auto
  have "opened (fst (main w a)) = opened (fst (try_body w a p out))"
    using main_validated [OF assms(1,2) out(1) [unfolded p_def]]
    by (simp add: p_def split: prod.splits sum.splits)
  then have 3: "set (opened (fst (main w a))) \<subseteq> {expected}"
    using try_body_opened [of w a p out] out(2) by simp
  show ?thesis
    using 1 2 3 unfolding Let_def p_def expected_def by blast
qed

theorem output_path_derived_witness:
  "exists w_ok (path_str (Path (pdf_file a_yaml))) = Inr True
   \<and> lower (suffix_of (Path (pdf_file a_yaml))) = ''.pdf''
   \<and> output_arg a_yaml = None \<and> \<not> markdown_only a_yaml
   \<and> map_option path_str (determine_output a_yaml (Path (pdf_file a_yaml))) = Some ''spec.yaml''
   \<and> set (opened (fst (main w_ok a_yaml))) \<subseteq> {''spec.yaml''}"
proof -
  have h1: "exists w_ok (path_str (Path (pdf_file a_yaml))) = Inr True"
    by (simp add: exists_def w_ok_def a_yaml_def)
  have h2: "lower (suffix_of (Path (pdf_file a_yaml))) = ''.pdf''"
    by (simp add: a_yaml_def)
  have h3: "output_arg a_yaml = None"
    by (simp add: a_yaml_def)
  from output_path_derived [OF h1 h2 h3] show ?thesis
    using h1 h2 h3 by (simp add: Let_def a_yaml_def)
qed

subsection \<open>Input validation\<close>







subsection \<open>Converter settings\<close>

text \<open>
  C5: a run that passes validation constructs the converter exactly once, with
  \<open>remove_headers\<close> the negation of \<open>--keep-headers\<close>, \<open>skip_empty_tables\<close> the
  negation of \<open>--include-empty-tables\<close>, and the table header \<open>### Table\<close>.
\<close>

theorem converter_flags:
  assumes "exists w (path_str (Path (pdf_file a))) = Inr True"
    and "lower (suffix_of (Path (pdf_file a))) = ''.pdf''"
  shows "constructed (fst (main w a)) = [(\<not> keep_headers a, \<not> include_empty_tables a, ''### Table'')]"
proof -
  from determine_output_defined [OF assms(2)]
  obtain out where out: "determine_output a (Path (pdf_file a)) = Some out" by blast
  show ?thesis
    unfolding main_validated [OF assms out]
    by (simp add: try_body_def pdf_to_markdown_def Let_def split: option.splits prod.splits sum.splits)
qed

theorem converter_flags_witness:
  "exists w_ok (path_str (Path (pdf_file a_keep))) = Inr True
   \<and> lower (suffix_of (Path (pdf_file a_keep))) = ''.pdf''
   \<and> keep_headers a_keep \<and> include_empty_tables a_keep
   \<and> constructed (fst (main w_ok a_keep)) = [(False, False, ''### Table'')]
   \<and> \<not> keep_headers a_yaml \<and> \<not> include_empty_tables a_yaml
   \<and> constructed (fst (main w_ok a_yaml)) = [(True, True, ''### Table'')]"
proof -
  have h1: "exists w_ok (path_str (Path (pdf_file a_keep))) = Inr True"
       "exists w_ok (path_str (Path (pdf_file a_yaml))) = Inr True"
    by (simp_all add: exists_def w_ok_def a_keep_def a_yaml_def)
  have h2: "lower (suffix_of (Path (pdf_file a_keep))) = ''.pdf''"
     "lower (suffix_of (Path (pdf_file a_yaml))) = ''.pdf''"
    by (simp_all add: a_keep_def a_yaml_def)
  from converter_flags [OF h1(1) h2(1)] converter_flags [OF h1(2) h2(2)]
  show ?thesis
    using h1 h2 by (simp add: a_keep_def a_yaml_def)
qed

subsection \<open>Written content\<close>

text \<open>
  C3: in markdown-only mode a run that exits with status 0 writes exactly once, to the
  output path, and the content written is the text \<open>convert\<close> returned, unchanged.
\<close>

theorem markdown_only_roundtrip:
  assumes "markdown_only a" and "snd (main w a) = 0"
  shows "\<exists>ps md out.
           convert w (\<not> keep_headers a) (\<not> include_empty_tables a) ''### Table''
             (path_str (Path (pdf_file a))) = (ps, Inr md)
         \<and> determine_output a (Path (pdf_file a)) = Some out
         \<and> written (fst (main w a)) = [(path_str out, md)]"
proof -
  from main_exit_zero [OF assms(2)] obtain out
    where out: "determine_output a (Path (pdf_file a)) = Some out"
      and tb: "try_body w a (Path (pdf_file a)) out = (fst (main w a), Inr ())"
    by blast
  from try_body_completes [OF tb] obtain ps md
    where cv: "convert w (\<not> keep_headers a) (\<not> include_empty_tables a) ''### Table''
                (path_str (Path (pdf_file a))) = (ps, Inr md)"
      and ev: "fst (main w a) = conversion_events a ps @ saved_messages a out
                  @ [OpenWrite (path_str out),
                     FileWrite (path_str out) (if markdown_only a then md else markdown_to_yaml_template md)]"
    by blast
  have "written (fst (main w a)) = [(path_str out, md)]"
    unfolding ev using assms(1) by simp
  with cv out show ?thesis by blast
qed

theorem markdown_only_roundtrip_witness:
  "markdown_only a_md \<and> snd (main w_ok a_md) = 0
   \<and> snd (convert w_ok (\<not> keep_headers a_md) (\<not> include_empty_tables a_md) ''### Table''
             (path_str (Path (pdf_file a_md)))) = Inr ''# Hi''
   \<and> written (fst (main w_ok a_md)) = [(''spec.md'', ''# Hi'')]"
proof -
  have h1: "markdown_only a_md" by (simp add: a_md_def)
  have h2: "snd (main w_ok a_md) = 0" by (simp add: main_ok_md)
  from markdown_only_roundtrip [OF h1 h2] obtain ps md out
    where "convert w_ok (\<not> keep_headers a_md) (\<not> include_empty_tables a_md) ''### Table''
             (path_str (Path (pdf_file a_md))) = (ps, Inr md)"
      and "determine_output a_md (Path (pdf_file a_md)) = Some out"
      and "written (fst (main w_ok a_md)) = [(path_str out, md)]"
    by blast
  then show ?thesis
    using h1 h2 by (auto simp: exists_def w_ok_def a_md_def)
qed

text \<open>
  C4, as stated, fails: the file written for the Markdown \<open># Hi\<close> does not end with
  \<open># Hi\<close>; a newline follows it.
\<close>

theorem yaml_template_ends_with_markdown_counterexample:
  "\<not> markdown_only a_yaml
   \<and> snd (convert w_ok (\<not> keep_headers a_yaml) (\<not> include_empty_tables a_yaml) ''### Table''
             (path_str (Path (pdf_file a_yaml)))) = Inr ''# Hi''
   \<and> main w_ok a_yaml = (fst (main w_ok a_yaml), 0)
   \<and> written (fst (main w_ok a_yaml)) = [(''spec.yaml'', markdown_to_yaml_template ''# Hi'')]
   \<and> \<not> suffix ''# Hi'' (markdown_to_yaml_template ''# Hi'')"
  by (simp add: main_ok_yaml) (simp add: a_yaml_def exists_def w_ok_def markdown_to_yaml_template_def suffix_to_prefix nl_def)

text \<open>
  C4, amended: in default mode a run that exits with status 0 writes exactly once, to the
  output path; the content is the scaffold, which contains the keys \<open>title:\<close>,
  \<open>purpose:\<close>, \<open>features:\<close>, \<open>metrics:\<close> and \<open>constraints:\<close> and ends with the
  marker line \<open>---\<close>, then the text \<open>convert\<close> returned, unchanged, then one newline,
  which ends the file.
\<close>

theorem yaml_template_written:
  assumes "\<not> markdown_only a" and "snd (main w a) = 0"
  shows "\<exists>ps md out.
           convert w (\<not> keep_headers a) (\<not> include_empty_tables a) ''### Table''
             (path_str (Path (pdf_file a))) = (ps, Inr md)
         \<and> determine_output a (Path (pdf_file a)) = Some out
         \<and> written (fst (main w a)) = [(path_str out, scaffold_head @ ''---'' @ nl @ md @ nl)]
         \<and> sublist ''title:'' scaffold_head \<and> sublist ''purpose:'' scaffold_head
         \<and> sublist ''features:'' scaffold_head \<and> sublist ''metrics:'' scaffold_head
         \<and> sublist ''constraints:'' scaffold_head"
proof -
  from main_exit_zero [OF assms(2)] obtain out
    where out: "determine_output a (Path (pdf_file a)) = Some out"
      and tb: "try_body w a (Path (pdf_file a)) out = (fst (main w a), Inr ())"
    by blast
  from try_body_completes [OF tb] obtain ps md
    where cv: "convert w (\<not> keep_headers a) (\<not> include_empty_tables a) ''### Table''
                (path_str (Path (pdf_file a))) = (ps, Inr md)"
      and ev: "fst (main w a) = conversion_events a ps @ saved_messages a out
                  @ [OpenWrite (path_str out),
                     FileWrite (path_str out) (if markdown_only a then md else markdown_to_yaml_template md)]"
    by blast
  have "written (fst (main w a)) = [(path_str out, scaffold_head @ ''---'' @ nl @ md @ nl)]"
    unfolding ev using assms(1) by (simp add: markdown_to_yaml_template_def scaffold_split)
  with cv out scaffold_keys show ?thesis by blast
qed

theorem yaml_template_written_witness:
  "\<not> markdown_only a_yaml \<and> snd (main w_ok a_yaml) = 0
   \<and> snd (convert w_ok (\<not> keep_headers a_yaml) (\<not> include_empty_tables a_yaml) ''### Table''
             (path_str (Path (pdf_file a_yaml)))) = Inr ''# Hi''
   \<and> written (fst (main w_ok a_yaml)) = [(''spec.yaml'', scaffold_head @ ''---'' @ nl @ ''# Hi'' @ nl)]
   \<and> sublist ''title:'' scaffold_head"
proof -
  have h1: "\<not> markdown_only a_yaml" by (simp add: a_yaml_def)
  have h2: "snd (main w_ok a_yaml) = 0" by (simp add: main_ok_yaml)
  from yaml_template_written [OF h1 h2] obtain ps md out
    where "convert w_ok (\<not> keep_headers a_yaml) (\<not> include_empty_tables a_yaml) ''### Table''
             (path_str (Path (pdf_file a_yaml))) = (ps, Inr md)"
      and "determine_output a_yaml (Path (pdf_file a_yaml)) = Some out"
      and "written (fst (main w_ok a_yaml)) = [(path_str out, scaffold_head @ ''---'' @ nl @ md @ nl)]"
      and "sublist ''title:'' scaffold_head"
    by blast
  then show ?thesis
    using h1 h2 by (auto simp: exists_def w_ok_def a_yaml_def)
qed

subsection \<open>Progress\<close>

text \<open>
  C6: in a run that reaches \<open>convert\<close>, the events after the call are, for each progress
  event the converter reports and in the order reported, one print of the line that
  starts with a carriage return and shows the phase, the current page, the number of
  pages and the percentage, with no newline after it, followed by one print of a
  newline if the percentage has reached 100.
\<close>

theorem progress_reported:
  assumes "exists w (path_str (Path (pdf_file a))) = Inr True"
    and "lower (suffix_of (Path (pdf_file a))) = ''.pdf''"
    and "new_converter w (\<not> keep_headers a) (\<not> include_empty_tables a) ''### Table'' = None"
    and "convert w (\<not> keep_headers a) (\<not> include_empty_tables a) ''### Table''
           (path_str (Path (pdf_file a))) = (ps, r)"
  shows "\<exists>rest. fst (main w a) =
           [NewConverter (\<not> keep_headers a) (\<not> include_empty_tables a) ''### Table'',
            Print (''Converting '' @ path_str (Path (pdf_file a)) @ '' to Markdown...'' @ nl),
            Convert (path_str (Path (pdf_file a)))]
           @ concat (map (\<lambda>p.
               Print (cr @ ''Phase: '' @ phase_value p @ '', Page '' @ str_int (current_page p)
                      @ ''/'' @ str_int (total_pages p) @ '', Progress: ''
                      @ format_1f (percentage p) @ ''%'')
               # (if 100 \<le> percentage p then [Print nl] else [])) ps)
           @ rest"
proof -
  have cb: "progress_callback = (\<lambda>p.
               Print (cr @ ''Phase: '' @ phase_value p @ '', Page '' @ str_int (current_page p)
                      @ ''/'' @ str_int (total_pages p) @ '', Progress: ''
                      @ format_1f (percentage p) @ ''%'')
               # (if 100 \<le> percentage p then [Print nl] else []))"
    by (simp add: fun_eq_iff progress_callback_def progress_line_def)
  from main_begins [OF assms] obtain rest
    where "fst (main w a) = conversion_events a ps @ rest" by blast
  then show ?thesis
    unfolding conversion_events_def cb append_assoc by blast
qed

theorem progress_reported_witness:
  "exists w_ok (path_str (Path (pdf_file a_md))) = Inr True
   \<and> lower (suffix_of (Path (pdf_file a_md))) = ''.pdf''
   \<and> new_converter w_ok (\<not> keep_headers a_md) (\<not> include_empty_tables a_md) ''### Table'' = None
   \<and> fst (convert w_ok (\<not> keep_headers a_md) (\<not> include_empty_tables a_md) ''### Table''
           (path_str (Path (pdf_file a_md)))) = [p_half, p_done]
   \<and> (\<exists>rest. fst (main w_ok a_md) =
         [NewConverter True True ''### Table'',
          Print (''Converting spec.pdf to Markdown...'' @ nl),
          Convert ''spec.pdf'',
          Print (cr @ ''Phase: analysis, Page 1/2, Progress: 50.0%''),
          Print (cr @ ''Phase: conversion, Page 2/2, Progress: 100.0%''),
          Print nl] @ rest)"
proof -
  have h1: "exists w_ok (path_str (Path (pdf_file a_md))) = Inr True"
    by (simp add: exists_def w_ok_def a_md_def)
  have h2: "lower (suffix_of (Path (pdf_file a_md))) = ''.pdf''"
    by (simp add: a_md_def)
  have h3: "new_converter w_ok (\<not> keep_headers a_md) (\<not> include_empty_tables a_md) ''### Table'' = None"
    by (simp add: exists_def w_ok_def)
  have h4: "convert w_ok (\<not> keep_headers a_md) (\<not> include_empty_tables a_md) ''### Table''
           (path_str (Path (pdf_file a_md))) = ([p_half, p_done], Inr ''# Hi'')"
    by (simp add: exists_def w_ok_def)
  have l1: "cr @ ''Phase: '' @ phase_value p_half @ '', Page '' @ str_int (current_page p_half)
                      @ ''/'' @ str_int (total_pages p_half) @ '', Progress: ''
                      @ format_1f (percentage p_half) @ ''%'' = cr @ ''Phase: analysis, Page 1/2, Progress: 50.0%''"
    using progress_line_half by (simp add: progress_line_def)
  have l2: "cr @ ''Phase: '' @ phase_value p_done @ '', Page '' @ str_int (current_page p_done)
                      @ ''/'' @ str_int (total_pages p_done) @ '', Progress: ''
                      @ format_1f (percentage p_done) @ ''%'' = cr @ ''Phase: conversion, Page 2/2, Progress: 100.0%''"
    using progress_line_done by (simp add: progress_line_def)
  have l3: "percentage p_half < 100" "100 \<le> percentage p_done"
    by (simp_all add: p_half_def p_done_def)
  from progress_reported [OF h1 h2 h3 h4] obtain rest where
    "fst (main w_ok a_md) =
           [NewConverter (\<not> keep_headers a_md) (\<not> include_empty_tables a_md) ''### Table'',
            Print (''Converting '' @ path_str (Path (pdf_file a_md)) @ '' to Markdown...'' @ nl),
            Convert (path_str (Path (pdf_file a_md)))]
           @ concat (map (\<lambda>p.
               Print (cr @ ''Phase: '' @ phase_value p @ '', Page '' @ str_int (current_page p)
                      @ ''/'' @ str_int (total_pages p) @ '', Progress: ''
                      @ format_1f (percentage p) @ ''%'')
               # (if 100 \<le> percentage p then [Print nl] else [])) [p_half, p_done])
           @ rest"
    by blast
  then have "fst (main w_ok a_md) =
         [NewConverter True True ''### Table'',
          Print (''Converting spec.pdf to Markdown...'' @ nl),
          Convert ''spec.pdf'',
          Print (cr @ ''Phase: analysis, Page 1/2, Progress: 50.0%''),
          Print (cr @ ''Phase: conversion, Page 2/2, Progress: 100.0%''),
          Print nl] @ rest"
    using l1 l2 l3 by (simp add: a_md_def)
  then show ?thesis
    using h1 h2 h3 h4 by simp
qed

text \<open>
  C10: the newline is printed for every progress event whose percentage is at least 100:
  in a run that reaches \<open>convert\<close>, the number of prints of a lone newline is the number
  of reported events with a percentage of 100 or more, so several such events give
  several newlines and none gives none.
\<close>

theorem newline_per_complete_event:
  assumes "exists w (path_str (Path (pdf_file a))) = Inr True"
    and "lower (suffix_of (Path (pdf_file a))) = ''.pdf''"
    and "new_converter w (\<not> keep_headers a) (\<not> include_empty_tables a) ''### Table'' = None"
    and "convert w (\<not> keep_headers a) (\<not> include_empty_tables a) ''### Table''
           (path_str (Path (pdf_file a))) = (ps, r)"
  shows "count_list (fst (main w a)) (Print nl) = length (filter (\<lambda>p. 100 \<le> percentage p) ps)"
proof -
  have "''Converting '' @ path_str (Path (pdf_file a)) @ '' to Markdown...'' @ nl \<noteq> nl"
    by (simp add: nl_def)
  then have "count_list (conversion_events a ps) (Print nl)
             = length (filter (\<lambda>p. 100 \<le> percentage p) ps)"
    by (simp add: conversion_events_def count_callbacks)
  moreover from main_begins [OF assms] obtain rest
    where "fst (main w a) = conversion_events a ps @ rest" "count_list rest (Print nl) = 0"
    by blast
  ultimately show ?thesis
    by simp
qed

theorem newline_per_complete_event_witness:
  "exists w_over (path_str (Path (pdf_file a_md))) = Inr True
   \<and> lower (suffix_of (Path (pdf_file a_md))) = ''.pdf''
   \<and> new_converter w_over (\<not> keep_headers a_md) (\<not> include_empty_tables a_md) ''### Table'' = None
   \<and> map percentage (fst (convert w_over (\<not> keep_headers a_md) (\<not> include_empty_tables a_md) ''### Table''
           (path_str (Path (pdf_file a_md))))) = [50, 100, 125, 100]
   \<and> count_list (fst (main w_over a_md)) (Print nl) = 3
   \<and> map percentage (fst (convert w_broken (\<not> keep_headers a_md) (\<not> include_empty_tables a_md) ''### Table''
           (path_str (Path (pdf_file a_md))))) = [50]
   \<and> count_list (fst (main w_broken a_md)) (Print nl) = 0"
proof -
  have h1: "exists w_over (path_str (Path (pdf_file a_md))) = Inr True"
    by (simp add: w_over_def exists_def w_ok_def a_md_def)
  have b1: "exists w_broken (path_str (Path (pdf_file a_md))) = Inr True"
    by (simp add: w_broken_def exists_def w_ok_def a_md_def)
  have b3: "new_converter w_broken (\<not> keep_headers a_md) (\<not> include_empty_tables a_md) ''### Table'' = None"
    by (simp add: w_broken_def exists_def w_ok_def)
  have b4: "convert w_broken (\<not> keep_headers a_md) (\<not> include_empty_tables a_md) ''### Table''
           (path_str (Path (pdf_file a_md))) = ([p_half], Inl (Exception ''bad xref''))"
    by (simp add: w_broken_def)
  have h2: "lower (suffix_of (Path (pdf_file a_md))) = ''.pdf''"
    by (simp add: a_md_def)
  have h3: "new_converter w_over (\<not> keep_headers a_md) (\<not> include_empty_tables a_md) ''### Table'' = None"
    by (simp add: w_over_def exists_def w_ok_def)
  have h4: "convert w_over (\<not> keep_headers a_md) (\<not> include_empty_tables a_md) ''### Table''
           (path_str (Path (pdf_file a_md))) = ([p_half, p_done, p_over, p_done], Inr ''# Hi'')"
    by (simp add: w_over_def)
  from newline_per_complete_event [OF h1 h2 h3 h4] newline_per_complete_event [OF b1 h2 b3 b4]
  show ?thesis
    using h1 h2 h3 h4 b4 by (simp add: p_half_def p_done_def p_over_def)
qed

subsection \<open>Failures after validation\<close>



text \<open>
  C9: the messages of the "Generate output" step (the save-location line and, in default
  mode, the four-line guide) are printed before the output file is opened. In a run whose
  conversion returns and whose output file then fails to open or to be written, the
  events are those of the conversion, the messages, the call of \<open>open\<close>, the write if
  the file opened, and the error message; the exit status is 1.
\<close>

theorem confirmation_before_write:
  assumes "exists w (path_str (Path (pdf_file a))) = Inr True"
    and "lower (suffix_of (Path (pdf_file a))) = ''.pdf''"
    and "determine_output a (Path (pdf_file a)) = Some out"
    and "new_converter w (\<not> keep_headers a) (\<not> include_empty_tables a) ''### Table'' = None"
    and "convert w (\<not> keep_headers a) (\<not> include_empty_tables a) ''### Table''
           (path_str (Path (pdf_file a))) = (ps, Inr md)"
    and "open_w w (path_str out) = Some e
         \<or> open_w w (path_str out) = None
           \<and> write_close w (path_str out)
                (if markdown_only a then md else markdown_to_yaml_template md) = Some e"
  shows "main w a =
           (conversion_events a ps
            @ (if markdown_only a then
                 [Print (nl @ ''Markdown saved to: '' @ path_str out @ nl)]
               else
                 [Print (nl @ ''YAML PRD template saved to: '' @ path_str out @ nl),
                  Print (nl @ ''Next steps:'' @ nl),
                  Print (''1. Open the YAML file and review the generated template'' @ nl),
                  Print (''2. Extract relevant information from the markdown section'' @ nl),
                  Print (''3. Fill in the TODO sections with actual content'' @ nl),
                  Print (''4. Remove the markdown section once extraction is complete'' @ nl)])
            @ [OpenWrite (path_str out)]
            @ (if open_w w (path_str out) = None
               then [FileWrite (path_str out) (if markdown_only a then md else markdown_to_yaml_template md)]
               else [])
            @ [Print (nl @ ''Error converting PDF: '' @ message e @ nl)], 1)
         \<and> opened (conversion_events a ps) = []"
proof -
  have sm: "saved_messages a out =
              (if markdown_only a then
                 [Print (nl @ ''Markdown saved to: '' @ path_str out @ nl)]
               else
                 [Print (nl @ ''YAML PRD template saved to: '' @ path_str out @ nl),
                  Print (nl @ ''Next steps:'' @ nl),
                  Print (''1. Open the YAML file and review the generated template'' @ nl),
                  Print (''2. Extract relevant information from the markdown section'' @ nl),
                  Print (''3. Fill in the TODO sections with actual content'' @ nl),
                  Print (''4. Remove the markdown section once extraction is complete'' @ nl)])"
    by (simp only: saved_messages_def)
  from assms(6) show ?thesis
  proof
    assume "open_w w (path_str out) = Some e"
    with main_converted [OF assms(1-5)] show ?thesis
      unfolding sm [symmetric] by (simp add: Let_def)
  next
    assume "open_w w (path_str out) = None
           \<and> write_close w (path_str out)
                (if markdown_only a then md else markdown_to_yaml_template md) = Some e"
    with main_converted [OF assms(1-5)] show ?thesis
      unfolding sm [symmetric] by (simp add: Let_def)
  qed
qed

theorem confirmation_before_write_witness:
  "exists w_full (path_str (Path (pdf_file a_md))) = Inr True
   \<and> lower (suffix_of (Path (pdf_file a_md))) = ''.pdf''
   \<and> write_close w_full ''spec.md'' ''# Hi'' = Some (Exception ''No space left on device'')
   \<and> main w_full a_md =
        (conversion_events a_md [p_half, p_done]
         @ [Print (nl @ ''Markdown saved to: spec.md'' @ nl),
            OpenWrite ''spec.md'',
            FileWrite ''spec.md'' ''# Hi'',
            Print (nl @ ''Error converting PDF: No space left on device'' @ nl)], 1)
   \<and> open_w w_denied ''spec.md'' = Some (Exception ''Permission denied'')
   \<and> main w_denied a_md =
        (conversion_events a_md [p_half, p_done]
         @ [Print (nl @ ''Markdown saved to: spec.md'' @ nl),
            OpenWrite ''spec.md'',
            Print (nl @ ''Error converting PDF: Permission denied'' @ nl)], 1)"
proof -
  let ?out = "\<lparr>root = [], parts = [''spec.md'']\<rparr>"
  have h1: "exists w_full (path_str (Path (pdf_file a_md))) = Inr True"
           "exists w_denied (path_str (Path (pdf_file a_md))) = Inr True"
    by (simp_all add: w_denied_def w_full_def exists_def w_ok_def a_md_def)
  have h2: "lower (suffix_of (Path (pdf_file a_md))) = ''.pdf''"
    by (simp add: a_md_def)
  have h3: "determine_output a_md (Path (pdf_file a_md)) = Some ?out"
    by (simp add: a_md_def)
  have h4: "new_converter w_full (\<not> keep_headers a_md) (\<not> include_empty_tables a_md) ''### Table'' = None"
           "new_converter w_denied (\<not> keep_headers a_md) (\<not> include_empty_tables a_md) ''### Table'' = None"
    by (simp_all add: w_denied_def w_full_def exists_def w_ok_def)
  have h5: "convert w_full (\<not> keep_headers a_md) (\<not> include_empty_tables a_md) ''### Table''
                (path_str (Path (pdf_file a_md))) = ([p_half, p_done], Inr ''# Hi'')"
           "convert w_denied (\<not> keep_headers a_md) (\<not> include_empty_tables a_md) ''### Table''
                (path_str (Path (pdf_file a_md))) = ([p_half, p_done], Inr ''# Hi'')"
    by (simp_all add: w_denied_def w_full_def exists_def w_ok_def)
  have h6: "open_w w_full (path_str ?out) = None
           \<and> write_close w_full (path_str ?out)
                (if markdown_only a_md then ''# Hi'' else markdown_to_yaml_template ''# Hi'')
              = Some (Exception ''No space left on device'')"
    by (simp add: w_full_def exists_def w_ok_def)
  have h7: "open_w w_denied (path_str ?out) = Some (Exception ''Permission denied'')"
    by (simp add: w_denied_def)
  have md: "markdown_only a_md" by (simp add: a_md_def)
  from confirmation_before_write [OF h1(1) h2 h3 h4(1) h5(1) disjI2, OF h6]
       confirmation_before_write [OF h1(2) h2 h3 h4(2) h5(2) disjI1, OF h7]
  show ?thesis
    using h1 h2 h6 h7 md by simp
qed

end
